theory Spec2Isabelle
  imports Main
begin

section \<open>Values, errors and the date types\<close>

text \<open>
  The module \<^verbatim>\<open>tw2/forms/calendars.py\<close> is dynamically typed: a validator receives
  any object. The values the two conversion methods distinguish are modelled by
  \<open>pyvalue\<close>; exceptions are values of \<open>error\<close>, and every function that can raise
  returns \<open>error + 'a\<close> with the exception on the left.
\<close>

datatype tz = TZ (tz_name: string) (tz_dst: "int option")
  \<comment> \<open>a \<^verbatim>\<open>tzinfo\<close> object; the only method the module reaches is \<^verbatim>\<open>dst()\<close>,
      through \<^verbatim>\<open>timetuple()\<close> (minutes, or \<^verbatim>\<open>None\<close>)\<close>

record date =
  d_year :: int
  d_month :: int
  d_day :: int

record datetime =
  dt_year :: int
  dt_month :: int
  dt_day :: int
  dt_hour :: int
  dt_minute :: int
  dt_second :: int
  dt_microsecond :: int
  dt_tzinfo :: "tz option"

datatype pyvalue =
    VNone
  | VStr string
  | VInt int
  | VDate date
  | VDateTime datetime

datatype error =
    Invalid string pyvalue  \<comment> \<open>\<^verbatim>\<open>formencode.api.Invalid(msg, value, state)\<close>\<close>
  | TypeError string
  | ValueError string
  | KeyError string
  | NameError string  \<comment> \<open>a global name that the module does not bind\<close>

text \<open>\<^verbatim>\<open>time.struct_time\<close>, the nine-field tuple of the \<^verbatim>\<open>time\<close> module.\<close>

record struct_time =
  tm_year :: int
  tm_mon :: int
  tm_mday :: int
  tm_hour :: int
  tm_min :: int
  tm_sec :: int
  tm_wday :: int
  tm_yday :: int
  tm_isdst :: int

text \<open>
  The module \<^verbatim>\<open>time\<close> of the standard library, as far as the module calls it:
  \<^verbatim>\<open>time.strptime(value, format)\<close> and \<^verbatim>\<open>time.strftime(format, tuple)\<close>.
\<close>

record time_module =
  strptime :: "string \<Rightarrow> string \<Rightarrow> error + struct_time"
  strftime :: "string \<Rightarrow> struct_time \<Rightarrow> error + string"

text \<open>
  The module's global namespace, for the two names that its functions use and that no
  statement of the module binds by name: \<^verbatim>\<open>time\<close> (lines 68, 125 and 128) and \<^verbatim>\<open>date\<close>
  (line 64). \<open>g_time\<close> is the object bound to \<^verbatim>\<open>time\<close>, if any; \<open>g_date\<close> tells whether
  \<^verbatim>\<open>date\<close> is bound (to the class \<^verbatim>\<open>datetime.date\<close>). Looking up a name that is not
  bound raises \<^verbatim>\<open>NameError\<close>.
\<close>

record globals =
  g_time :: "time_module option"
  g_date :: bool

text \<open>
  The namespace of the module as it is shipped. Lines 28 to 40 bind \<^verbatim>\<open>re\<close>,
  \<^verbatim>\<open>datetime\<close> (the class), \<^verbatim>\<open>logging\<close>, \<^verbatim>\<open>twc\<close>, \<^verbatim>\<open>FormField\<close>, \<^verbatim>\<open>formencode\<close>,
  \<^verbatim>\<open>ForEach\<close>, \<^verbatim>\<open>Invalid\<close>, \<^verbatim>\<open>NoDefault\<close> and \<^verbatim>\<open>Schema\<close>, and the two star
  imports add the validator classes that \<^verbatim>\<open>formencode.validators\<close> and
  \<^verbatim>\<open>formencode.compound\<close> export. Neither \<^verbatim>\<open>time\<close> nor \<^verbatim>\<open>date\<close> is among them.
\<close>

definition shipped :: globals where
  "shipped = \<lparr> g_time = None, g_date = False \<rparr>"

text \<open>
  The method \<^verbatim>\<open>strftime(format)\<close> of a \<^verbatim>\<open>datetime\<close> object belongs to the interpreter's
  library and reaches the C formatter without any name of the module. The embedding
  takes it as a parameter, so that a theorem stated for every \<open>platform\<close> holds whatever
  the C library does.
\<close>

record platform =
  datetime_strftime :: "datetime \<Rightarrow> string \<Rightarrow> error + string"

text \<open>Truth value of an object, as \<^verbatim>\<open>if value\<close> and \<^verbatim>\<open>not value\<close> test it.\<close>

fun truthy :: "pyvalue \<Rightarrow> bool" where
  "truthy VNone = False"
| "truthy (VStr s) = (s \<noteq> [])"
| "truthy (VInt n) = (n \<noteq> 0)"
| "truthy (VDate d) = True"
| "truthy (VDateTime d) = True"

text \<open>\<^verbatim>\<open>isinstance(value, (date, datetime))\<close> and \<^verbatim>\<open>isinstance(value, datetime)\<close>.\<close>

fun is_date_or_datetime :: "pyvalue \<Rightarrow> bool" where
  "is_date_or_datetime (VDate d) = True"
| "is_date_or_datetime (VDateTime d) = True"
| "is_date_or_datetime v = False"

fun is_datetime :: "pyvalue \<Rightarrow> bool" where
  "is_datetime (VDateTime d) = True"
| "is_datetime v = False"

section \<open>Library behaviour the module relies on\<close>

subsection \<open>Decimal text of an integer\<close>

definition digit_char :: "int \<Rightarrow> char" where
  "digit_char d = ''0123456789'' ! nat d"

text \<open>The digits of an integer that is not negative, most significant first.\<close>

function str_pos :: "int \<Rightarrow> string" where
  "str_pos n = (if n < 10 then [digit_char n] else str_pos (n div 10) @ [digit_char (n mod 10)])"
  by pat_completeness auto
termination
  by (relation "measure nat") auto

declare str_pos.simps [simp del]

text \<open>\<^verbatim>\<open>str(year)\<close> for an integer.\<close>

definition str_int :: "int \<Rightarrow> string" where
  "str_int i = (if i < 0 then CHR ''-'' # str_pos (- i) else str_pos i)"

text \<open>
  \<^verbatim>\<open>"%4d" % (year,)\<close>: the decimal text, right-justified in a field of width 4 and
  padded on the left with blanks; a longer text is not cut.
\<close>

definition format_4d :: "int \<Rightarrow> string" where
  "format_4d i = replicate (4 - length (str_int i)) CHR '' '' @ str_int i"

subsection \<open>The proleptic Gregorian calendar of \<^verbatim>\<open>datetime\<close>\<close>

definition is_leap :: "int \<Rightarrow> bool" where
  "is_leap y = (y mod 4 = 0 \<and> (y mod 100 \<noteq> 0 \<or> y mod 400 = 0))"

definition days_in_month :: "int \<Rightarrow> int \<Rightarrow> int" where
  "days_in_month y m =
     (if m = 2 \<and> is_leap y then 29
      else [31, 28, 31, 30, 31, 30, 31, 31, 30, 31, 30, 31] ! nat (m - 1))"

definition days_before_year :: "int \<Rightarrow> int" where
  "days_before_year y = (y - 1) * 365 + (y - 1) div 4 - (y - 1) div 100 + (y - 1) div 400"

definition days_before_month :: "int \<Rightarrow> int \<Rightarrow> int" where
  "days_before_month y m =
     [0, 31, 59, 90, 120, 151, 181, 212, 243, 273, 304, 334] ! nat (m - 1)
       + (if 2 < m \<and> is_leap y then 1 else 0)"

definition ymd2ord :: "int \<Rightarrow> int \<Rightarrow> int \<Rightarrow> int" where
  "ymd2ord y m d = days_before_year y + days_before_month y m + d"

text \<open>
  \<^verbatim>\<open>dt.timetuple()\<close>: the date and time fields, the weekday (Monday is 0), the day of
  the year, and the daylight-saving flag (\<open>-1\<close> when unknown).
\<close>

definition timetuple :: "datetime \<Rightarrow> struct_time" where
  "timetuple dt =
     \<lparr> tm_year = dt_year dt, tm_mon = dt_month dt, tm_mday = dt_day dt,
       tm_hour = dt_hour dt, tm_min = dt_minute dt, tm_sec = dt_second dt,
       tm_wday = (ymd2ord (dt_year dt) (dt_month dt) (dt_day dt) + 6) mod 7,
       tm_yday = days_before_month (dt_year dt) (dt_month dt) + dt_day dt,
       tm_isdst = (case dt_tzinfo dt of
                     None \<Rightarrow> - 1
                   | Some z \<Rightarrow> (case tz_dst z of
                                 None \<Rightarrow> - 1
                               | Some m \<Rightarrow> (if m \<noteq> 0 then 1 else 0))) \<rparr>"

text \<open>
  The constructor \<^verbatim>\<open>datetime(year=, month=, day=, hour=, minute=, second=, tzinfo=)\<close>:
  it raises \<^verbatim>\<open>ValueError\<close> for a field outside its range and leaves the microsecond at 0.
\<close>

definition datetime_new ::
    "int \<Rightarrow> int \<Rightarrow> int \<Rightarrow> int \<Rightarrow> int \<Rightarrow> int \<Rightarrow> tz option \<Rightarrow> error + datetime" where
  "datetime_new y m d hh mm ss tzi =
     (if \<not> (1 \<le> y \<and> y \<le> 9999) then Inl (ValueError ''year is out of range'')
      else if \<not> (1 \<le> m \<and> m \<le> 12) then Inl (ValueError ''month must be in 1..12'')
      else if \<not> (1 \<le> d \<and> d \<le> days_in_month y m)
        then Inl (ValueError ''day is out of range for month'')
      else if \<not> (0 \<le> hh \<and> hh \<le> 23) then Inl (ValueError ''hour must be in 0..23'')
      else if \<not> (0 \<le> mm \<and> mm \<le> 59) then Inl (ValueError ''minute must be in 0..59'')
      else if \<not> (0 \<le> ss \<and> ss \<le> 59) then Inl (ValueError ''second must be in 0..59'')
      else Inr \<lparr> dt_year = y, dt_month = m, dt_day = d, dt_hour = hh, dt_minute = mm,
                 dt_second = ss, dt_microsecond = 0, dt_tzinfo = tzi \<rparr>)"

subsection \<open>\<^verbatim>\<open>str.find\<close>\<close>

text \<open>
  \<^verbatim>\<open>text.find(substr, i)\<close>: the lowest offset \<open>j \<ge> i\<close> at which \<open>substr\<close> occurs in
  \<open>text\<close>; \<open>None\<close> stands for the result \<open>-1\<close>.
\<close>

function find_from :: "string \<Rightarrow> string \<Rightarrow> nat \<Rightarrow> nat option" where
  "find_from text substr i =
     (if length text < i + length substr then None
      else if take (length substr) (drop i text) = substr then Some i
      else find_from text substr (Suc i))"
  by pat_completeness auto
termination
  by (relation "measure (\<lambda>(text, substr, i). Suc (length text) - i)") auto

declare find_from.simps [simp del]

section \<open>The module\<close>

subsection \<open>\<^verbatim>\<open>_illegal_s\<close>\<close>

text \<open>
  \<^verbatim>\<open>_illegal_s = re.compile(r"((^|[^%])(%%)*%s)")\<close>. \<open>match_pct_s\<close> matches the tail
  \<^verbatim>\<open>(%%)*%s\<close> at the head of a string; \<open>search_after\<close> tries every position at which
  \<^verbatim>\<open>[^%]\<close> consumes one character; \<open>illegal_s_search\<close> is \<^verbatim>\<open>_illegal_s.search(fmt)\<close>
  as a truth value, the alternative \<^verbatim>\<open>^\<close> matching at offset 0 only.
\<close>

fun match_pct_s :: "string \<Rightarrow> bool" where
  "match_pct_s (a # b # rest) =
     (if a = CHR ''%'' \<and> b = CHR ''s'' then True
      else if a = CHR ''%'' \<and> b = CHR ''%'' then match_pct_s rest
      else False)"
| "match_pct_s rest = False"

fun search_after :: "string \<Rightarrow> bool" where
  "search_after [] = False"
| "search_after (c # cs) = ((c \<noteq> CHR ''%'' \<and> match_pct_s cs) \<or> search_after cs)"

definition illegal_s_search :: "string \<Rightarrow> bool" where
  "illegal_s_search fmt = (match_pct_s fmt \<or> search_after fmt)"

subsection \<open>\<^verbatim>\<open>_findall\<close>\<close>

text \<open>
  The loop of \<^verbatim>\<open>_findall\<close>, with its variables \<open>i\<close> and \<open>sites\<close> as arguments: it
  stops when \<^verbatim>\<open>find\<close> returns \<open>-1\<close> and otherwise resumes one character after the hit.
\<close>

function findall_loop :: "string \<Rightarrow> string \<Rightarrow> nat \<Rightarrow> nat list \<Rightarrow> nat list" where
  "findall_loop text substr i sites =
     (case find_from text substr i of
        None \<Rightarrow> sites
      | Some j \<Rightarrow> findall_loop text substr (j + 1) (sites @ [j]))"
  by pat_completeness auto
termination
proof (relation "measure (\<lambda>(text, substr, i, sites). Suc (length text) - i)")
  show "wf (measure (\<lambda>(text, substr, i, sites). Suc (length text) - i))"
    by simp
next
  fix t sub :: string and i j :: nat and sites :: "nat list"
  assume hit: "find_from t sub i = Some j"
  have bounds: "find_from t' sub' k = Some j \<Longrightarrow> k \<le> j \<and> j \<le> length t'" for t' sub' k
  proof (induction t' sub' k rule: find_from.induct)
    case (1 t' sub' k)
    show ?case
    proof (cases "length t' < k + length sub'")
      case True
      with "1.prems" show ?thesis by (simp add: find_from.simps [of t' sub' k])
    next
      case far: False
      show ?thesis
      proof (cases "take (length sub') (drop k t') = sub'")
        case True
        with far "1.prems" show ?thesis by (simp add: find_from.simps [of t' sub' k])
      next
        case False
        with far "1.prems" have "find_from t' sub' (Suc k) = Some j"
          by (simp add: find_from.simps [of t' sub' k])
        with far False "1.IH" show ?thesis by simp
      qed
    qed
  qed
  from bounds [OF hit]
  show "((t, sub, j + 1, sites @ [j]), (t, sub, i, sites))
          \<in> measure (\<lambda>(text, substr, i, sites). Suc (length text) - i)"
    by auto
qed

declare findall_loop.simps [simp del]

definition findall :: "string \<Rightarrow> string \<Rightarrow> nat list" where
  "findall text substr = findall_loop text substr 0 []"

subsection \<open>\<^verbatim>\<open>strftime_before1900\<close>\<close>

text \<open>
  Lines 115 to 123: the year handed to the library in place of the true one. Python's
  \<^verbatim>\<open>//\<close> rounds towards minus infinity, as \<open>div\<close> on \<open>int\<close> does.
\<close>

definition working_year :: "int \<Rightarrow> int" where
  "working_year y =
     (let year = y;
          delta = 2000 - year;
          off = 6 * (delta div 100 + delta div 400);
          year = year + off;
          year = year + ((2000 - year) div 28) * 28
      in year)"

text \<open>One round of the loop of lines 138 and 139: \<^verbatim>\<open>s[:site] + syear + s[site+4:]\<close>.\<close>

definition splice_year :: "string \<Rightarrow> string \<Rightarrow> nat \<Rightarrow> string" where
  "splice_year syear s site = take site s @ syear @ drop (site + 4) s"

text \<open>
  The function. The name \<^verbatim>\<open>time\<close> is looked up when line 125 is reached, after the
  check of the pattern, the test of the year and the computation of the working year;
  line 128 looks it up again in the same namespace.
\<close>

definition strftime_before1900 ::
    "globals \<Rightarrow> platform \<Rightarrow> datetime \<Rightarrow> string \<Rightarrow> error + string" where
  "strftime_before1900 G P dt fmt =
     (if illegal_s_search fmt
        then Inl (TypeError ''This strftime implementation does not handle %s'')
      else if 1900 < dt_year dt then datetime_strftime P dt fmt
      else
        let year = working_year (dt_year dt);
            tt = timetuple dt
        in case g_time G of
             None \<Rightarrow> Inl (NameError ''time'')
           | Some T \<Rightarrow>
               (case strftime T fmt (tt\<lparr>tm_year := year\<rparr>) of
                  Inl e \<Rightarrow> Inl e
                | Inr s1 \<Rightarrow>
                    let sites1 = findall s1 (str_int year)
                    in case strftime T fmt (tt\<lparr>tm_year := year + 28\<rparr>) of
                         Inl e \<Rightarrow> Inl e
                       | Inr s2 \<Rightarrow>
                           let sites2 = findall s2 (str_int (year + 28));
                               sites = filter (\<lambda>site. site \<in> set sites2) sites1;
                               syear = format_4d (dt_year dt)
                           in Inr (foldl (splice_year syear) s1 sites)))"

subsection \<open>\<^verbatim>\<open>DateTimeConverter\<close>\<close>

text \<open>
  The two conversion methods \<^verbatim>\<open>_to_python\<close> and \<^verbatim>\<open>_from_python\<close> are \<open>to_python\<close> and
  \<open>from_python\<close> below, as \<^verbatim>\<open>_findall\<close> is \<open>findall\<close>: a name cannot begin with an
  underscore here. The argument \<^verbatim>\<open>state\<close> is only handed on to \<^verbatim>\<open>self.message\<close> and to
  \<^verbatim>\<open>Invalid\<close> and is left out.
\<close>

record converter =
  format :: string
  tzinfo :: "tz option"
  not_empty :: bool

definition messages :: "(string \<times> string) list" where
  "messages = [(''badFormat'', ''Invalid datetime format.''),
               (''empty'', ''Please Enter a Date.'')]"

definition message :: "string \<Rightarrow> error + string" where
  "message key = (case map_of messages key of None \<Rightarrow> Inl (KeyError key) | Some m \<Rightarrow> Inr m)"

text \<open>
  Lines 67 to 75 of \<^verbatim>\<open>_to_python\<close>, the branch that parses. The name \<^verbatim>\<open>time\<close> is
  looked up before the call; \<^verbatim>\<open>time.strptime\<close> raises \<^verbatim>\<open>TypeError\<close> for an argument that
  is not a string. Only \<^verbatim>\<open>ValueError\<close> is caught, and the call of the \<^verbatim>\<open>datetime\<close>
  constructor stands after the \<^verbatim>\<open>try\<close>.
\<close>

definition parse_value :: "globals \<Rightarrow> converter \<Rightarrow> pyvalue \<Rightarrow> error + pyvalue" where
  "parse_value G self v =
     (case g_time G of
        None \<Rightarrow> Inl (NameError ''time'')
      | Some T \<Rightarrow>
          (case v of
             VStr s \<Rightarrow>
               (case strptime T s (format self) of
                  Inl (ValueError m) \<Rightarrow>
                    (case message ''badFormat'' of
                       Inl e \<Rightarrow> Inl e
                     | Inr msg \<Rightarrow> Inl (Invalid msg v))
                | Inl e \<Rightarrow> Inl e
                | Inr tpl \<Rightarrow>
                    (case datetime_new (tm_year tpl) (tm_mon tpl) (tm_mday tpl)
                            (tm_hour tpl) (tm_min tpl) (tm_sec tpl) (tzinfo self) of
                       Inl e \<Rightarrow> Inl e
                     | Inr dt \<Rightarrow> Inr (VDateTime dt)))
           | _ \<Rightarrow> Inl (TypeError ''expected string or buffer'')))"

text \<open>
  \<^verbatim>\<open>_to_python\<close>. In \<^verbatim>\<open>value and isinstance(value, (date, datetime))\<close> the right operand
  is evaluated for a true value only, and its tuple needs the name \<^verbatim>\<open>date\<close>.
\<close>

definition to_python :: "globals \<Rightarrow> platform \<Rightarrow> converter \<Rightarrow> pyvalue \<Rightarrow> error + pyvalue" where
  "to_python G P self v =
     (if truthy v then
        (if \<not> g_date G then Inl (NameError ''date'')
         else if is_date_or_datetime v then Inr v
         else parse_value G self v)
      else parse_value G self v)"

text \<open>\<^verbatim>\<open>_from_python\<close>. It uses neither of the two names itself.\<close>

definition from_python :: "globals \<Rightarrow> platform \<Rightarrow> converter \<Rightarrow> pyvalue \<Rightarrow> error + pyvalue" where
  "from_python G P self v =
     (if \<not> truthy v then Inr VNone
      else case v of
        VDateTime dt \<Rightarrow>
          (if dt_year dt \<le> 1900
             then map_sum id VStr (strftime_before1900 G P dt (format self))
             else map_sum id VStr (datetime_strftime P dt (format self)))
      | _ \<Rightarrow> Inr v)"

section \<open>A reference platform\<close>

text \<open>
  The interpreter's library is not part of the module. For the concrete examples below
  the method \<^verbatim>\<open>datetime.strftime\<close> is written out after the documentation of Python 2
  in the C locale, for the numeric and the name directives of ANSI C. No general
  theorem depends on these definitions: those are stated for every platform.
\<close>

subsection \<open>The C formatter\<close>

text \<open>\<^verbatim>\<open>"%02d" % n\<close> and \<^verbatim>\<open>"%03d" % n\<close> for a field that is not negative.\<close>

definition zero_pad :: "nat \<Rightarrow> int \<Rightarrow> string" where
  "zero_pad w i = replicate (w - length (str_int i)) CHR ''0'' @ str_int i"

definition space_pad :: "nat \<Rightarrow> int \<Rightarrow> string" where
  "space_pad w i = replicate (w - length (str_int i)) CHR '' '' @ str_int i"

definition weekday_names :: "string list" where
  "weekday_names = [''Monday'', ''Tuesday'', ''Wednesday'', ''Thursday'', ''Friday'',
                    ''Saturday'', ''Sunday'']"

definition month_names :: "string list" where
  "month_names = [''January'', ''February'', ''March'', ''April'', ''May'', ''June'', ''July'',
                  ''August'', ''September'', ''October'', ''November'', ''December'']"

text \<open>
  One conversion of C's \<^verbatim>\<open>strftime\<close> on a tuple whose fields are in range.
  \<^verbatim>\<open>%s\<close>, the seconds since 1970 of the GNU C library, is given for a process whose
  time zone is UTC. The time zone name \<^verbatim>\<open>%Z\<close> and the other extensions of
  particular C libraries are outside this table; a conversion outside it is copied as
  it stands.
\<close>

fun conversion :: "char \<Rightarrow> struct_time \<Rightarrow> string" where
  "conversion c t =
     (if c = CHR ''Y'' then str_int (tm_year t)
      else if c = CHR ''y'' then zero_pad 2 (tm_year t mod 100)
      else if c = CHR ''m'' then zero_pad 2 (tm_mon t)
      else if c = CHR ''d'' then zero_pad 2 (tm_mday t)
      else if c = CHR ''e'' then space_pad 2 (tm_mday t)
      else if c = CHR ''H'' then zero_pad 2 (tm_hour t)
      else if c = CHR ''I'' then zero_pad 2 ((tm_hour t + 11) mod 12 + 1)
      else if c = CHR ''M'' then zero_pad 2 (tm_min t)
      else if c = CHR ''S'' then zero_pad 2 (tm_sec t)
      else if c = CHR ''j'' then zero_pad 3 (tm_yday t)
      else if c = CHR ''p'' then (if tm_hour t < 12 then ''AM'' else ''PM'')
      else if c = CHR ''w'' then str_int ((tm_wday t + 1) mod 7)
      else if c = CHR ''U''
        then zero_pad 2 ((tm_yday t - 1 + 7 - (tm_wday t + 1) mod 7) div 7)
      else if c = CHR ''W'' then zero_pad 2 ((tm_yday t - 1 + 7 - tm_wday t) div 7)
      else if c = CHR ''A'' then weekday_names ! nat (tm_wday t)
      else if c = CHR ''a'' then take 3 (weekday_names ! nat (tm_wday t))
      else if c = CHR ''B'' then month_names ! nat (tm_mon t - 1)
      else if c = CHR ''b'' then take 3 (month_names ! nat (tm_mon t - 1))
      else if c = CHR ''s''
        then str_int ((ymd2ord (tm_year t) (tm_mon t) (tm_mday t) - 719163) * 86400
                        + tm_hour t * 3600 + tm_min t * 60 + tm_sec t)
      else if c = CHR ''%'' then ''%''
      else [CHR ''%'', c])"

fun expand_plain :: "string \<Rightarrow> struct_time \<Rightarrow> string" where
  "expand_plain (a # b # rest) t =
     (if a = CHR ''%'' then conversion b t @ expand_plain rest t
      else a # expand_plain (b # rest) t)"
| "expand_plain rest t = rest"

text \<open>The composite conversions \<^verbatim>\<open>%c\<close>, \<^verbatim>\<open>%x\<close> and \<^verbatim>\<open>%X\<close> of the C locale.\<close>

fun expand :: "string \<Rightarrow> struct_time \<Rightarrow> string" where
  "expand (a # b # rest) t =
     (if a = CHR ''%'' then
        (if b = CHR ''c'' then expand_plain ''%a %b %e %H:%M:%S %Y'' t @ expand rest t
         else if b = CHR ''x'' then expand_plain ''%m/%d/%y'' t @ expand rest t
         else if b = CHR ''X'' then expand_plain ''%H:%M:%S'' t @ expand rest t
         else conversion b t @ expand rest t)
      else a # expand (b # rest) t)"
| "expand rest t = rest"

text \<open>
  The formatter behind \<^verbatim>\<open>time.strftime(format, tuple)\<close> of Python 2, which the method
  of \<^verbatim>\<open>datetime\<close> calls inside the library: a year below 1900 is refused, but for
  the two-digit years that \<^verbatim>\<open>time.accept2dyear\<close> maps into 1969 to 2068; the other
  fields are checked against their ranges, a month, a day or a day of the year of 0
  counting as 1. The day of the week is refused when C's remainder of its successor by
  7 is negative.
\<close>

definition py_time_strftime :: "string \<Rightarrow> struct_time \<Rightarrow> error + string" where
  "py_time_strftime fmt t =
     (let y = tm_year t;
          mon = (if tm_mon t = 0 then 1 else tm_mon t);
          mday = (if tm_mday t = 0 then 1 else tm_mday t);
          yday = (if tm_yday t = 0 then 1 else tm_yday t)
      in
      if y < 0 \<or> (99 < y \<and> y < 1900) then Inl (ValueError ''year out of range'')
      else if mon < 1 \<or> 12 < mon then Inl (ValueError ''month out of range'')
      else if mday < 1 \<or> 31 < mday then Inl (ValueError ''day of month out of range'')
      else if tm_hour t < 0 \<or> 23 < tm_hour t then Inl (ValueError ''hour out of range'')
      else if tm_min t < 0 \<or> 59 < tm_min t then Inl (ValueError ''minute out of range'')
      else if tm_sec t < 0 \<or> 61 < tm_sec t then Inl (ValueError ''seconds out of range'')
      else if tm_wday t + 1 < 0 \<and> (tm_wday t + 1) mod 7 \<noteq> 0
        then Inl (ValueError ''day of week out of range'')
      else if yday < 1 \<or> 366 < yday then Inl (ValueError ''day of year out of range'')
      else Inr (expand fmt
             (t\<lparr>tm_year := (if 69 \<le> y \<and> y \<le> 99 then y + 1900
                              else if 0 \<le> y \<and> y \<le> 68 then y + 2000 else y),
                 tm_mon := mon, tm_mday := mday, tm_yday := yday,
                 tm_wday := tm_wday t mod 7\<rparr>)))"

subsection \<open>\<^verbatim>\<open>datetime.strftime\<close>\<close>

text \<open>
  The method refuses a year below 1900 and hands the rest to \<^verbatim>\<open>time.strftime\<close> with
  the object's time tuple (its own substitutions \<^verbatim>\<open>%f\<close>, \<^verbatim>\<open>%z\<close> and \<^verbatim>\<open>%Z\<close> are
  outside the table above).
\<close>

definition py_datetime_strftime :: "datetime \<Rightarrow> string \<Rightarrow> error + string" where
  "py_datetime_strftime dt fmt =
     (if dt_year dt < 1900
        then Inl (ValueError ''the datetime strftime() methods require year >= 1900'')
      else py_time_strftime fmt (timetuple dt))"

subsection \<open>The platform\<close>

definition py2 :: platform where
  "py2 = \<lparr> datetime_strftime = py_datetime_strftime \<rparr>"

section \<open>Notions of the specification\<close>

text \<open>
  The text \<open>substr\<close> occurs in \<open>text\<close> at offset \<open>j\<close>. Occurrences may overlap:
  every offset is judged on its own.
\<close>

definition occurs_at :: "string \<Rightarrow> string \<Rightarrow> nat \<Rightarrow> bool" where
  "occurs_at text substr j =
     (j + length substr \<le> length text \<and> take (length substr) (drop j text) = substr)"

text \<open>
  An unescaped \<^verbatim>\<open>%s\<close>: an \<open>s\<close> at some offset \<open>i\<close> of the pattern for which the run
  of percent signs that ends right before it has odd length, so that the last of them
  is not consumed as the second half of a \<^verbatim>\<open>%%\<close>. \<open>pct_run pre\<close> is the length of the run
  of percent signs at the end of \<open>pre\<close>.
\<close>

definition pct_run :: "string \<Rightarrow> nat" where
  "pct_run pre = length (takeWhile (\<lambda>c. c = CHR ''%'') (rev pre))"

definition unescaped_s :: "string \<Rightarrow> bool" where
  "unescaped_s fmt =
     list_ex (\<lambda>i. fmt ! i = CHR ''s'' \<and> odd (pct_run (take i fmt))) [0 ..< length fmt]"

text \<open>
  The same scan from left to right, for the proofs: \<open>b\<close> tells whether the run of
  percent signs read so far is odd.
\<close>

fun odd_run_s :: "bool \<Rightarrow> string \<Rightarrow> bool" where
  "odd_run_s b [] = False"
| "odd_run_s b (c # cs) =
     (if c = CHR ''%'' then odd_run_s (\<not> b) cs else (c = CHR ''s'' \<and> b) \<or> odd_run_s False cs)"

section \<open>Example inputs\<close>

definition d1850 :: datetime where
  "d1850 = \<lparr> dt_year = 1850, dt_month = 7, dt_day = 4, dt_hour = 0, dt_minute = 0,
              dt_second = 0, dt_microsecond = 0, dt_tzinfo = None \<rparr>"

definition d1900 :: datetime where
  "d1900 = \<lparr> dt_year = 1900, dt_month = 12, dt_day = 31, dt_hour = 23, dt_minute = 59,
              dt_second = 0, dt_microsecond = 0, dt_tzinfo = None \<rparr>"

definition d1901 :: datetime where
  "d1901 = \<lparr> dt_year = 1901, dt_month = 1, dt_day = 1, dt_hour = 0, dt_minute = 0,
              dt_second = 0, dt_microsecond = 0, dt_tzinfo = None \<rparr>"

definition d1882 :: datetime where
  "d1882 = \<lparr> dt_year = 1882, dt_month = 3, dt_day = 9, dt_hour = 20, dt_minute = 0,
              dt_second = 0, dt_microsecond = 0, dt_tzinfo = None \<rparr>"

text \<open>
  The validator that \<^verbatim>\<open>CalendarDatePicker.post_define\<close> builds from the defaults of the
  class (lines 162, 164 and 166).
\<close>

definition date_picker_validator :: converter where
  "date_picker_validator = \<lparr> format = ''%m/%d/%Y'', tzinfo = None, not_empty = True \<rparr>"

text \<open>\<^verbatim>\<open>DateTimeConverter(format='%Y/%m/%d', not_empty=False)\<close>.\<close>

definition ymd_validator :: converter where
  "ymd_validator = \<lparr> format = ''%Y/%m/%d'', tzinfo = None, not_empty = False \<rparr>"

text \<open>A platform whose \<^verbatim>\<open>datetime.strftime\<close> leaves a mark, to tell the two paths apart.\<close>

definition direct_marked :: platform where
  "direct_marked = \<lparr> datetime_strftime = (\<lambda>dt fmt. Inr ''direct'') \<rparr>"

section \<open>Properties\<close>

subsection \<open>Searching\<close>

lemma find_from_None_iff:
  "find_from t sub i = None \<longleftrightarrow> (\<forall>j\<ge>i. \<not> occurs_at t sub j)"
proof (induction t sub i rule: find_from.induct)
  case (1 t sub i)
  show ?case
  proof (cases "length t < i + length sub")
    case True
    then show ?thesis
      by (auto simp: find_from.simps [of t sub i] occurs_at_def)
  next
    case far: False
    show ?thesis
    proof (cases "take (length sub) (drop i t) = sub")
      case True
      with far have "occurs_at t sub i" by (simp add: occurs_at_def)
      with far True show ?thesis
        by (auto simp: find_from.simps [of t sub i])
    next
      case False
      then have no: "\<not> occurs_at t sub i" by (simp add: occurs_at_def)
      from far False "1.IH"
      have "find_from t sub (Suc i) = None \<longleftrightarrow> (\<forall>j\<ge>Suc i. \<not> occurs_at t sub j)"
        by simp
      moreover have "(\<forall>j\<ge>i. \<not> occurs_at t sub j) \<longleftrightarrow> (\<forall>j\<ge>Suc i. \<not> occurs_at t sub j)"
        using no by (metis Suc_leD Suc_leI le_neq_implies_less)
      ultimately show ?thesis using far False
        by (simp add: find_from.simps [of t sub i])
    qed
  qed
qed

lemma find_from_Some_iff:
  "find_from t sub i = Some j \<longleftrightarrow>
     i \<le> j \<and> occurs_at t sub j \<and> (\<forall>k. i \<le> k \<and> k < j \<longrightarrow> \<not> occurs_at t sub k)"
proof (induction t sub i rule: find_from.induct)
  case (1 t sub i)
  show ?case
  proof (cases "length t < i + length sub")
    case True
    then have "\<not> occurs_at t sub j'" if "i \<le> j'" for j'
      using that by (simp add: occurs_at_def)
    with True show ?thesis
      by (auto simp: find_from.simps [of t sub i])
  next
    case far: False
    show ?thesis
    proof (cases "take (length sub) (drop i t) = sub")
      case True
      with far have here: "occurs_at t sub i" by (simp add: occurs_at_def)
      have "find_from t sub i = Some i"
        using far True by (simp add: find_from.simps [of t sub i])
      moreover have "j = i"
        if "i \<le> j" and "\<forall>k. i \<le> k \<and> k < j \<longrightarrow> \<not> occurs_at t sub k"
      proof (rule ccontr)
        assume "j \<noteq> i"
        with that(1) have "i < j" by simp
        with that(2) here show False by blast
      qed
      ultimately show ?thesis using here by auto
    next
      case False
      then have no: "\<not> occurs_at t sub i" by (simp add: occurs_at_def)
      from far False "1.IH"
      have ih: "find_from t sub (Suc i) = Some j \<longleftrightarrow>
        Suc i \<le> j \<and> occurs_at t sub j \<and> (\<forall>k. Suc i \<le> k \<and> k < j \<longrightarrow> \<not> occurs_at t sub k)"
        by simp
      have step: "find_from t sub i = find_from t sub (Suc i)"
        using far False by (simp add: find_from.simps [of t sub i])
      have "(Suc i \<le> j \<and> occurs_at t sub j \<and> (\<forall>k. Suc i \<le> k \<and> k < j \<longrightarrow> \<not> occurs_at t sub k))
         \<longleftrightarrow> (i \<le> j \<and> occurs_at t sub j \<and> (\<forall>k. i \<le> k \<and> k < j \<longrightarrow> \<not> occurs_at t sub k))"
        using no by (metis Suc_leD Suc_leI le_neq_implies_less)
      with ih step show ?thesis by simp
    qed
  qed
qed

lemma occurs_at_le: "occurs_at t sub j \<Longrightarrow> j \<le> length t"
  by (simp add: occurs_at_def)

lemma filter_upt_split:
  assumes "i \<le> j" "j < n" "Q j" "\<forall>k. i \<le> k \<and> k < j \<longrightarrow> \<not> Q k"
  shows "filter Q [i ..< n] = j # filter Q [Suc j ..< n]"
proof -
  have "[i ..< n] = [i ..< j] @ j # [Suc j ..< n]"
    using assms(1,2) by (metis le_add_diff_inverse less_imp_le_nat upt_add_eq_append upt_conv_Cons)
  moreover have "filter Q [i ..< j] = []"
    using assms(4) by (simp add: filter_empty_conv)
  ultimately show ?thesis using assms(3) by simp
qed

lemma findall_loop_eq:
  "findall_loop t sub i acc = acc @ filter (occurs_at t sub) [i ..< Suc (length t)]"
proof (induction t sub i acc rule: findall_loop.induct)
  case (1 t sub i acc)
  show ?case
  proof (cases "find_from t sub i")
    case None
    then have "\<forall>j\<ge>i. \<not> occurs_at t sub j" by (simp add: find_from_None_iff)
    then have "filter (occurs_at t sub) [i ..< Suc (length t)] = []"
      by (simp add: filter_empty_conv del: upt_Suc)
    with None show ?thesis by (simp add: findall_loop.simps [of t sub i acc])
  next
    case (Some j)
    then have j: "i \<le> j" "occurs_at t sub j" "\<forall>k. i \<le> k \<and> k < j \<longrightarrow> \<not> occurs_at t sub k"
      by (simp_all add: find_from_Some_iff)
    from j(2) have "j < Suc (length t)" by (simp add: occurs_at_def)
    with j have "filter (occurs_at t sub) [i ..< Suc (length t)]
        = j # filter (occurs_at t sub) [Suc j ..< Suc (length t)]"
      by (intro filter_upt_split) auto
    moreover from Some "1.IH"
    have "findall_loop t sub (j + 1) (acc @ [j])
        = (acc @ [j]) @ filter (occurs_at t sub) [j + 1 ..< Suc (length t)]"
      by (simp del: upt_Suc)
    ultimately show ?thesis using Some
      by (simp add: findall_loop.simps [of t sub i acc] del: upt_Suc)
  qed
qed

lemma findall_eq: "findall t sub = filter (occurs_at t sub) [0 ..< Suc (length t)]"
  by (simp add: findall_def findall_loop_eq del: upt_Suc)

lemma set_findall: "set (findall t sub) = {j. occurs_at t sub j}"
  by (auto simp: findall_eq less_Suc_eq_le simp del: upt_Suc dest: occurs_at_le)

lemma sorted_findall: "sorted (findall t sub)"
  by (simp add: findall_eq sorted_wrt_filter del: upt_Suc)

lemma distinct_findall: "distinct (findall t sub)"
  by (simp add: findall_eq del: upt_Suc)

lemma str_pos_length_le: "0 < k \<Longrightarrow> n < 10 ^ k \<Longrightarrow> length (str_pos n) \<le> k"
proof (induction k arbitrary: n)
  case 0
  then show ?case by simp
next
  case (Suc k)
  show ?case
  proof (cases "n < 10")
    case True
    then show ?thesis by (simp add: str_pos.simps [of n])
  next
    case False
    define m :: int where "m = 10 ^ k"
    from Suc.prems have "n < 10 * m" by (simp add: m_def)
    with False have "1 < m" and "n div 10 < m" by presburger+
    then have "0 < k" and "n div 10 < 10 ^ k"
      by (auto simp: m_def intro: gr0I)
    then have "length (str_pos (n div 10)) \<le> k" by (rule Suc.IH)
    with False show ?thesis by (simp add: str_pos.simps [of n])
  qed
qed

lemma str_pos_length_gt: "10 ^ k \<le> n \<Longrightarrow> k < length (str_pos n)"
proof (induction k arbitrary: n)
  case 0
  then show ?case by (simp add: str_pos.simps [of n])
next
  case (Suc k)
  define m :: int where "m = 10 ^ k"
  have "1 \<le> m" by (simp add: m_def)
  moreover from Suc.prems have "10 * m \<le> n" by (simp add: m_def)
  ultimately have big: "\<not> n < 10" and "m \<le> n div 10" by presburger+
  then have "k < length (str_pos (n div 10))"
    unfolding m_def by (intro Suc.IH)
  with big show ?case by (simp add: str_pos.simps [of n])
qed

lemma str_int_length_4: "1000 \<le> y \<Longrightarrow> y \<le> 9999 \<Longrightarrow> length (str_int y) = 4"
proof -
  assume a: "1000 \<le> y" "y \<le> 9999"
  then have "y < 10 ^ 4" and "10 ^ 3 \<le> y" by simp_all
  then have "length (str_pos y) \<le> 4" and "3 < length (str_pos y)"
    using str_pos_length_le [of 4 y] str_pos_length_gt [of 3 y] by simp_all
  with a show ?thesis by (simp add: str_int_def)
qed

lemma str_int_length_le_4: "- 999 \<le> y \<Longrightarrow> y \<le> 9999 \<Longrightarrow> length (str_int y) \<le> 4"
proof (cases "y < 0")
  case True
  assume "- 999 \<le> y"
  with True have "- y < 10 ^ 3" by simp
  then have "length (str_pos (- y)) \<le> 3"
    using str_pos_length_le [of 3 "- y"] by simp
  with True show ?thesis by (simp add: str_int_def)
next
  case False
  assume "y \<le> 9999"
  with False have "y < 10 ^ 4" by simp
  then have "length (str_pos y) \<le> 4"
    using str_pos_length_le [of 4 y] by simp
  with False show ?thesis by (simp add: str_int_def)
qed

lemma length_format_4d: "length (format_4d y) = max 4 (length (str_int y))"
  by (simp add: format_4d_def)

lemma length_splice:
  "site + 4 \<le> length s \<Longrightarrow> length (splice_year sy s site) + 4 = length s + length sy"
  by (simp add: splice_year_def)

lemma nth_splice_outside:
  assumes "length sy = 4" "k < length s" "k < site \<or> site + 4 \<le> k"
  shows "splice_year sy s site ! k = s ! k"
proof (cases "k < site")
  case True
  with assms(2) show ?thesis by (simp add: splice_year_def nth_append)
next
  case False
  with assms(3) have far: "site + 4 \<le> k" by simp
  then have "\<not> k < site" and "\<not> k - site < 4" and "site + 4 + (k - site - 4) = k"
    by arith+
  with assms(1,2) far show ?thesis
    by (simp add: splice_year_def nth_append min_def)
qed

lemma nth_foldl_splice:
  "\<forall>site \<in> set sites. site + 4 \<le> length s \<Longrightarrow> length sy = 4 \<Longrightarrow> k < length s \<Longrightarrow>
   \<forall>site \<in> set sites. k < site \<or> site + 4 \<le> k \<Longrightarrow>
   foldl (splice_year sy) s sites ! k = s ! k"
proof (induction sites arbitrary: s)
  case Nil
  then show ?case by simp
next
  case (Cons a sites)
  then have a: "a + 4 \<le> length s" by simp
  with Cons.prems(2) have len: "length (splice_year sy s a) = length s"
    using length_splice [of a s sy] by simp
  from Cons.prems have here: "splice_year sy s a ! k = s ! k"
    by (intro nth_splice_outside) auto
  have "foldl (splice_year sy) (splice_year sy s a) sites ! k = splice_year sy s a ! k"
    using Cons.prems len by (intro Cons.IH) auto
  with here show ?case by simp
qed

subsection \<open>The working year\<close>

lemma working_year_bounds: "1972 < working_year y \<and> working_year y \<le> 2000"
proof -
  define z where "z = y + 6 * ((2000 - y) div 100 + (2000 - y) div 400)"
  have wy: "working_year y = z + ((2000 - z) div 28) * 28"
    by (simp add: working_year_def Let_def z_def)
  have "(2000 - z) div 28 * 28 = (2000 - z) - (2000 - z) mod 28"
    by (simp add: minus_mod_eq_div_mult)
  then have eq: "working_year y = 2000 - (2000 - z) mod 28"
    using wy by simp
  have "0 \<le> (2000 - z) mod 28" and "(2000 - z) mod 28 < 28"
    by simp_all
  with eq show ?thesis by linarith
qed

lemma length_str_working_year:
  "length (str_int (working_year y)) = 4" "length (str_int (working_year y + 28)) = 4"
  using working_year_bounds [of y] by (simp_all add: str_int_length_4)

text \<open>
  C10. For every year, and so for every year up to 1900 and every negative one, the
  working year lies in the interval from 1973 to 2000 and the year of the second pass
  (28 more) in the interval from 2001 to 2028; both are greater than 1900, the least
  year the library's formatter takes.
\<close>

theorem working_year_window:
  "1972 < working_year y \<and> working_year y \<le> 2000
   \<and> 2000 < working_year y + 28 \<and> working_year y + 28 \<le> 2028
   \<and> 1900 < working_year y \<and> 1900 < working_year y + 28"
  using working_year_bounds [of y] by simp

subsection \<open>The two unbound names\<close>

text \<open>
  Where a function reaches a name that the namespace does not bind, it raises
  \<^verbatim>\<open>NameError\<close>: the legacy formatter for every year up to 1900 once the pattern has
  passed the check, \<^verbatim>\<open>_to_python\<close> for every true value (\<^verbatim>\<open>date\<close>) and for every false
  one (\<^verbatim>\<open>time\<close>).
\<close>

lemma strftime_before1900_unbound:
  "\<not> illegal_s_search fmt \<Longrightarrow> dt_year dt \<le> 1900 \<Longrightarrow> g_time G = None \<Longrightarrow>
   strftime_before1900 G P dt fmt = Inl (NameError ''time'')"
  by (simp add: strftime_before1900_def Let_def)

lemma to_python_unbound_date:
  "truthy v \<Longrightarrow> \<not> g_date G \<Longrightarrow> to_python G P self v = Inl (NameError ''date'')"
  by (simp add: to_python_def)

lemma to_python_unbound_time:
  "\<not> truthy v \<Longrightarrow> g_time G = None \<Longrightarrow> to_python G P self v = Inl (NameError ''time'')"
  by (simp add: to_python_def parse_value_def)

text \<open>
  What the legacy formatter does in a namespace that binds \<^verbatim>\<open>time\<close> to a module \<open>T\<close>
  whose two formatting passes give the texts \<open>s1\<close> and \<open>s2\<close>: the true year is spliced
  into \<open>s1\<close> at the offsets where \<open>s1\<close> has the working year and \<open>s2\<close> the year 28 later.
\<close>

lemma strftime_before1900_legacy:
  assumes "dt_year dt \<le> 1900" and "\<not> illegal_s_search fmt" and "g_time G = Some T"
    and "strftime T fmt ((timetuple dt)\<lparr>tm_year := working_year (dt_year dt)\<rparr>) = Inr s1"
    and "strftime T fmt ((timetuple dt)\<lparr>tm_year := working_year (dt_year dt) + 28\<rparr>) = Inr s2"
  shows "strftime_before1900 G P dt fmt =
           Inr (foldl (splice_year (format_4d (dt_year dt))) s1
                  (filter (\<lambda>site. site \<in> set (findall s2 (str_int (working_year (dt_year dt) + 28))))
                          (findall s1 (str_int (working_year (dt_year dt))))))"
  using assms by (simp add: strftime_before1900_def Let_def)

lemma strftime_before1900_safe_sites:
  assumes "dt_year dt \<le> 1900" and "\<not> illegal_s_search fmt" and "g_time G = Some T"
    and "strftime T fmt ((timetuple dt)\<lparr>tm_year := working_year (dt_year dt)\<rparr>) = Inr s1"
    and "strftime T fmt ((timetuple dt)\<lparr>tm_year := working_year (dt_year dt) + 28\<rparr>) = Inr s2"
  shows "strftime_before1900 G P dt fmt =
           Inr (foldl (splice_year (format_4d (dt_year dt))) s1
                  (filter (\<lambda>j. occurs_at s1 (str_int (working_year (dt_year dt))) j
                              \<and> occurs_at s2 (str_int (working_year (dt_year dt) + 28)) j)
                          [0 ..< Suc (length s1)]))"
proof -
  have "filter (\<lambda>site. site \<in> set (findall s2 (str_int (working_year (dt_year dt) + 28))))
               (findall s1 (str_int (working_year (dt_year dt))))
      = filter (\<lambda>j. occurs_at s1 (str_int (working_year (dt_year dt))) j
                    \<and> occurs_at s2 (str_int (working_year (dt_year dt) + 28)) j)
               [0 ..< Suc (length s1)]"
    unfolding findall_eq [of s1] set_findall filter_filter
    by (rule filter_cong) auto
  with strftime_before1900_legacy [OF assms] show ?thesis by simp
qed

lemma bound_time_gives_1850:
  assumes "g_time G = Some T"
    and "strftime T ''%Y-%m-%d'' ((timetuple d1850)\<lparr>tm_year := 1996\<rparr>) = Inr ''1996-07-04''"
    and "strftime T ''%Y-%m-%d'' ((timetuple d1850)\<lparr>tm_year := 2024\<rparr>) = Inr ''2024-07-04''"
  shows "strftime_before1900 G P d1850 ''%Y-%m-%d'' = Inr ''1850-07-04''"
proof -
  have y: "dt_year d1850 \<le> 1900" by (simp add: d1850_def)
  have ok: "\<not> illegal_s_search ''%Y-%m-%d''" by code_simp
  have wy: "working_year (dt_year d1850) = 1996" by code_simp
  from assms(2,3) have
    "strftime T ''%Y-%m-%d'' ((timetuple d1850)\<lparr>tm_year := working_year (dt_year d1850)\<rparr>)
       = Inr ''1996-07-04''"
    and "strftime T ''%Y-%m-%d'' ((timetuple d1850)\<lparr>tm_year := working_year (dt_year d1850) + 28\<rparr>)
       = Inr ''2024-07-04''"
    by (simp_all add: wy)
  with y ok assms(1) have "strftime_before1900 G P d1850 ''%Y-%m-%d'' =
      Inr (foldl (splice_year (format_4d (dt_year d1850))) ''1996-07-04''
             (filter (\<lambda>site. site \<in> set (findall ''2024-07-04'' (str_int (working_year (dt_year d1850) + 28))))
                     (findall ''1996-07-04'' (str_int (working_year (dt_year d1850))))))"
    by (rule strftime_before1900_legacy)
  also have "foldl (splice_year (format_4d (dt_year d1850))) ''1996-07-04''
             (filter (\<lambda>site. site \<in> set (findall ''2024-07-04'' (str_int (working_year (dt_year d1850) + 28))))
                     (findall ''1996-07-04'' (str_int (working_year (dt_year d1850))))) = ''1850-07-04''"
    by code_simp
  finally show ?thesis .
qed

text \<open>
  C1. The module as shipped does not return \<^verbatim>\<open>1850-07-04\<close> for the fourth of July 1850
  under the pattern \<^verbatim>\<open>%Y-%m-%d\<close>: the pattern passes the check, the year is not after
  1900, and line 125 raises \<^verbatim>\<open>NameError\<close> for the name \<^verbatim>\<open>time\<close>, on every platform. (With
  \<^verbatim>\<open>time\<close> bound the result is the text of the specification, as
  \<open>bound_time_gives_1850\<close> shows.)
\<close>

theorem strftime_before1900_1850:
  "strftime_before1900 shipped P d1850 ''%Y-%m-%d'' = Inl (NameError ''time'')"
proof -
  have "\<not> illegal_s_search ''%Y-%m-%d''" by code_simp
  moreover have "dt_year d1850 \<le> 1900" by (simp add: d1850_def)
  moreover have "g_time shipped = None" by (simp add: shipped_def)
  ultimately show ?thesis by (rule strftime_before1900_unbound)
qed

text \<open>
  C2. For a year up to 1900 and a pattern that passes the check, the working year is
  the one the specification computes in two steps, \<open>delta\<close>, \<open>off\<close> and the shift by a
  multiple of 28. In the module as shipped this year is handed to no formatter: the
  function raises \<^verbatim>\<open>NameError\<close> at the call of the first pass.
\<close>

theorem working_year_first_pass:
  assumes "dt_year dt \<le> 1900" and "\<not> illegal_s_search fmt"
    and "delta = 2000 - dt_year dt"
    and "off = 6 * (delta div 100 + delta div 400)"
    and "shifted = dt_year dt + off"
    and "final = shifted + ((2000 - shifted) div 28) * 28"
  shows "working_year (dt_year dt) = final
    \<and> strftime_before1900 shipped P dt fmt = Inl (NameError ''time'')"
proof -
  have "working_year (dt_year dt) = final"
    using assms(3-6) by (simp add: working_year_def Let_def)
  moreover have "strftime_before1900 shipped P dt fmt = Inl (NameError ''time'')"
    using assms(2,1) by (rule strftime_before1900_unbound) (simp add: shipped_def)
  ultimately show ?thesis by simp
qed

theorem working_year_first_pass_witness:
  "working_year 1900 = 1990
   \<and> strftime_before1900 shipped py2 d1900 ''%d.%m.%Y %H:%M'' = Inl (NameError ''time'')"
proof -
  have y: "dt_year d1900 = 1900" by (simp add: d1900_def)
  have h1: "dt_year d1900 \<le> 1900" by (simp add: d1900_def)
  have h2: "\<not> illegal_s_search ''%d.%m.%Y %H:%M''" by code_simp
  have h3: "(100::int) = 2000 - dt_year d1900" by (simp add: d1900_def)
  have h4: "(6::int) = 6 * (100 div 100 + 100 div 400)" by simp
  have h5: "(1906::int) = dt_year d1900 + 6" by (simp add: d1900_def)
  have h6: "(1990::int) = 1906 + ((2000 - 1906) div 28) * 28" by simp
  from working_year_first_pass [OF h1 h2 h3 h4 h5 h6, of py2] y show ?thesis by simp
qed

text \<open>
  The same year in a namespace that binds \<^verbatim>\<open>time\<close>: the first pass is made on the
  time tuple with the working year, and its error is the function's error.
\<close>

lemma first_pass_error_when_bound:
  assumes "dt_year dt \<le> 1900" and "\<not> illegal_s_search fmt" and "g_time G = Some T"
    and "strftime T fmt ((timetuple dt)\<lparr>tm_year := working_year (dt_year dt)\<rparr>) = Inl e"
  shows "strftime_before1900 G P dt fmt = Inl e"
  using assms by (simp add: strftime_before1900_def Let_def)

subsection \<open>The pattern check\<close>

lemma match_pct_s_Cons_other: "c \<noteq> CHR ''%'' \<Longrightarrow> match_pct_s (c # cs) = False"
  by (cases cs) auto

lemma odd_run_s_regex:
  "odd_run_s b s \<longleftrightarrow>
     (if b then match_pct_s (CHR ''%'' # s) else match_pct_s s) \<or> search_after s"
proof (induction s arbitrary: b)
  case Nil
  then show ?case by simp
next
  case (Cons c cs)
  show ?case
  proof (cases "c = CHR ''%''")
    case True
    with Cons.IH [of "\<not> b"] show ?thesis by (cases b) auto
  next
    case False
    with Cons.IH [of False] show ?thesis
      by (cases b) (auto simp: match_pct_s_Cons_other)
  qed
qed

lemma pct_run_snoc:
  "pct_run (pre @ [c]) = (if c = CHR ''%'' then Suc (pct_run pre) else 0)"
  by (simp add: pct_run_def)

lemma odd_run_s_positions:
  "odd_run_s (odd (pct_run pre)) s \<longleftrightarrow>
     (\<exists>i<length s. s ! i = CHR ''s'' \<and> odd (pct_run (pre @ take i s)))"
proof (induction s arbitrary: pre)
  case Nil
  then show ?case by simp
next
  case (Cons c cs)
  have split: "(\<exists>i<length (c # cs). (c # cs) ! i = CHR ''s'' \<and> odd (pct_run (pre @ take i (c # cs))))
      \<longleftrightarrow> (c = CHR ''s'' \<and> odd (pct_run pre))
          \<or> (\<exists>i<length cs. cs ! i = CHR ''s'' \<and> odd (pct_run ((pre @ [c]) @ take i cs)))"
    by (simp add: Ex_less_Suc2)
  show ?case
  proof (cases "c = CHR ''%''")
    case True
    then have "odd_run_s (odd (pct_run pre)) (c # cs) = odd_run_s (odd (pct_run (pre @ [c]))) cs"
      by (simp add: pct_run_snoc)
    also have "\<dots> \<longleftrightarrow> (\<exists>i<length cs. cs ! i = CHR ''s'' \<and> odd (pct_run ((pre @ [c]) @ take i cs)))"
      by (rule Cons.IH)
    finally show ?thesis using True split by simp
  next
    case False
    then have "odd_run_s (odd (pct_run pre)) (c # cs)
        = ((c = CHR ''s'' \<and> odd (pct_run pre)) \<or> odd_run_s (odd (pct_run (pre @ [c]))) cs)"
      by (simp add: pct_run_snoc)
    also have "odd_run_s (odd (pct_run (pre @ [c]))) cs
        \<longleftrightarrow> (\<exists>i<length cs. cs ! i = CHR ''s'' \<and> odd (pct_run ((pre @ [c]) @ take i cs)))"
      by (rule Cons.IH)
    finally show ?thesis using split by simp
  qed
qed

lemma illegal_s_search_iff: "illegal_s_search fmt = unescaped_s fmt"
proof -
  have "illegal_s_search fmt = odd_run_s False fmt"
    by (simp add: illegal_s_search_def odd_run_s_regex)
  also have "odd_run_s False fmt = odd_run_s (odd (pct_run [])) fmt"
    by (simp add: pct_run_def)
  also have "\<dots> \<longleftrightarrow> (\<exists>i<length fmt. fmt ! i = CHR ''s'' \<and> odd (pct_run ([] @ take i fmt)))"
    by (rule odd_run_s_positions)
  also have "\<dots> = unescaped_s fmt"
    by (auto simp: unescaped_s_def list_ex_iff)
  finally show ?thesis .
qed

text \<open>
  C6. The check of \<^verbatim>\<open>_illegal_s\<close> finds exactly the patterns with an unescaped
  \<^verbatim>\<open>%s\<close>. For such a pattern \<^verbatim>\<open>strftime_before1900\<close> raises \<^verbatim>\<open>TypeError\<close> for every
  date, whatever its year, the platform and the namespace, and returns no text. For any
  other pattern the check passes: a year after 1900 gets the answer of \<^verbatim>\<open>dt.strftime\<close>;
  a year up to 1900 gets a text whenever \<^verbatim>\<open>time\<close> is bound and the two formatting
  passes give one, and the \<^verbatim>\<open>NameError\<close> of the lookup when \<^verbatim>\<open>time\<close> is not bound.
\<close>

theorem unescaped_s_rejected:
  "illegal_s_search fmt = unescaped_s fmt
   \<and> (unescaped_s fmt \<longrightarrow>
        strftime_before1900 G P dt fmt
          = Inl (TypeError ''This strftime implementation does not handle %s''))
   \<and> (\<not> unescaped_s fmt \<and> 1900 < dt_year dt \<longrightarrow>
        strftime_before1900 G P dt fmt = datetime_strftime P dt fmt)
   \<and> (\<not> unescaped_s fmt \<and> dt_year dt \<le> 1900 \<longrightarrow>
        (\<forall>T s1 s2.
           g_time G = Some T
           \<and> strftime T fmt ((timetuple dt)\<lparr>tm_year := working_year (dt_year dt)\<rparr>) = Inr s1
           \<and> strftime T fmt ((timetuple dt)\<lparr>tm_year := working_year (dt_year dt) + 28\<rparr>) = Inr s2
           \<longrightarrow> (\<exists>r. strftime_before1900 G P dt fmt = Inr r)))
   \<and> (\<not> unescaped_s fmt \<and> dt_year dt \<le> 1900 \<and> g_time G = None \<longrightarrow>
        strftime_before1900 G P dt fmt = Inl (NameError ''time''))"
proof -
  have eq: "illegal_s_search fmt = unescaped_s fmt"
    by (rule illegal_s_search_iff)
  have rej: "strftime_before1900 G P dt fmt
          = Inl (TypeError ''This strftime implementation does not handle %s'')"
    if "unescaped_s fmt"
    using that eq by (simp add: strftime_before1900_def)
  have direct: "strftime_before1900 G P dt fmt = datetime_strftime P dt fmt"
    if "\<not> unescaped_s fmt" and "1900 < dt_year dt"
    using that eq by (simp add: strftime_before1900_def)
  have legacy: "\<exists>r. strftime_before1900 G P dt fmt = Inr r"
    if "\<not> unescaped_s fmt" and "dt_year dt \<le> 1900" and "g_time G = Some T"
      and "strftime T fmt ((timetuple dt)\<lparr>tm_year := working_year (dt_year dt)\<rparr>) = Inr s1"
      and "strftime T fmt ((timetuple dt)\<lparr>tm_year := working_year (dt_year dt) + 28\<rparr>) = Inr s2"
    for T s1 s2
    using that eq strftime_before1900_legacy [of dt fmt G T s1 s2 P] by simp
  have unbound: "strftime_before1900 G P dt fmt = Inl (NameError ''time'')"
    if "\<not> unescaped_s fmt" and "dt_year dt \<le> 1900" and "g_time G = None"
    using that eq strftime_before1900_unbound [of fmt dt G P] by simp
  from eq rej direct legacy unbound show ?thesis by blast
qed

theorem unescaped_s_rejected_witness:
  "unescaped_s ''%Y %%%s''
   \<and> strftime_before1900 shipped py2 d1901 ''%Y %%%s''
       = Inl (TypeError ''This strftime implementation does not handle %s'')
   \<and> strftime_before1900 shipped py2 d1850 ''%Y %%%s''
       = Inl (TypeError ''This strftime implementation does not handle %s'')
   \<and> \<not> unescaped_s ''%Y %%s''
   \<and> strftime_before1900 shipped py2 d1901 ''%Y %%s'' = Inr ''1901 %s''"
proof -
  have u: "unescaped_s ''%Y %%%s''" by code_simp
  have n: "\<not> unescaped_s ''%Y %%s''" by code_simp
  have y: "1900 < dt_year d1901" by (simp add: d1901_def)
  from u unescaped_s_rejected [of "''%Y %%%s''" shipped py2 d1901]
  have a: "strftime_before1900 shipped py2 d1901 ''%Y %%%s''
       = Inl (TypeError ''This strftime implementation does not handle %s'')"
    by blast
  from u unescaped_s_rejected [of "''%Y %%%s''" shipped py2 d1850]
  have b: "strftime_before1900 shipped py2 d1850 ''%Y %%%s''
       = Inl (TypeError ''This strftime implementation does not handle %s'')"
    by blast
  from n y unescaped_s_rejected [of "''%Y %%s''" shipped py2 d1901]
  have "strftime_before1900 shipped py2 d1901 ''%Y %%s'' = datetime_strftime py2 d1901 ''%Y %%s''"
    by blast
  also have "\<dots> = Inr ''1901 %s''" by code_simp
  finally show ?thesis using u n a b by blast
qed

subsection \<open>The splice\<close>

text \<open>
  C4. \<^verbatim>\<open>_findall\<close> returns exactly the offsets at which the text occurs, overlapping
  ones included. In the module as shipped \<^verbatim>\<open>strftime_before1900\<close> never calls it: for
  the time 20:00 on the ninth of March 1882 and the pattern \<^verbatim>\<open>%H%M %Y\<close>, where the text
  of the time coincides with the working year 2000, the function raises \<^verbatim>\<open>NameError\<close>
  at line 125, before any offset is recorded and before any splice.
\<close>

theorem findall_never_reached:
  "set (findall t sub) = {j. occurs_at t sub j}
   \<and> findall ''2000 2000'' ''2000'' = [0, 5]
   \<and> findall ''aaaa'' ''aa'' = [0, 1, 2]
   \<and> strftime_before1900 shipped P d1882 ''%H%M %Y'' = Inl (NameError ''time'')"
proof -
  have "\<not> illegal_s_search ''%H%M %Y''" by code_simp
  moreover have "dt_year d1882 \<le> 1900" by (simp add: d1882_def)
  moreover have "g_time shipped = None" by (simp add: shipped_def)
  ultimately have "strftime_before1900 shipped P d1882 ''%H%M %Y'' = Inl (NameError ''time'')"
    by (rule strftime_before1900_unbound)
  moreover have "findall ''2000 2000'' ''2000'' = [0, 5]" by code_simp
  moreover have "findall ''aaaa'' ''aa'' = [0, 1, 2]" by code_simp
  ultimately show ?thesis by (simp add: set_findall)
qed

text \<open>
  In a namespace that binds \<^verbatim>\<open>time\<close> the true year is spliced in at the offsets that
  are in both sets, in ascending order; when the true year takes four characters, a
  character that lies in no window of four at such an offset is the one of the first
  text.
\<close>

lemma safe_sites_when_bound:
  assumes "dt_year dt \<le> 1900" and "\<not> illegal_s_search fmt" and "g_time G = Some T"
    and "y1 = working_year (dt_year dt)" and "y2 = y1 + 28"
    and "strftime T fmt ((timetuple dt)\<lparr>tm_year := y1\<rparr>) = Inr s1"
    and "strftime T fmt ((timetuple dt)\<lparr>tm_year := y2\<rparr>) = Inr s2"
    and "safe = (\<lambda>j. occurs_at s1 (str_int y1) j \<and> occurs_at s2 (str_int y2) j)"
    and "sites = filter safe [0 ..< Suc (length s1)]"
  shows "strftime_before1900 G P dt fmt
           = Inr (foldl (splice_year (format_4d (dt_year dt))) s1 sites)"
    and "\<forall>site\<in>set sites. site + 4 \<le> length s1"
    and "length (format_4d (dt_year dt)) = 4 \<Longrightarrow> k < length s1 \<Longrightarrow>
         \<forall>j. safe j \<longrightarrow> k < j \<or> j + 4 \<le> k \<Longrightarrow>
         foldl (splice_year (format_4d (dt_year dt))) s1 sites ! k = s1 ! k"
proof -
  show res: "strftime_before1900 G P dt fmt
               = Inr (foldl (splice_year (format_4d (dt_year dt))) s1 sites)"
    using strftime_before1900_safe_sites [of dt fmt G T s1 s2 P] assms by simp
  show range: "\<forall>site\<in>set sites. site + 4 \<le> length s1"
  proof
    fix site assume "site \<in> set sites"
    then have "occurs_at s1 (str_int (working_year (dt_year dt))) site"
      by (simp add: assms(4,8,9) del: upt_Suc)
    then show "site + 4 \<le> length s1"
      by (simp add: occurs_at_def length_str_working_year)
  qed
  show "foldl (splice_year (format_4d (dt_year dt))) s1 sites ! k = s1 ! k"
    if len: "length (format_4d (dt_year dt)) = 4" and k: "k < length s1"
      and out: "\<forall>j. safe j \<longrightarrow> k < j \<or> j + 4 \<le> k"
  proof -
    from out have "\<forall>site\<in>set sites. k < site \<or> site + 4 \<le> k"
      by (simp add: assms(9) del: upt_Suc)
    with range len k show ?thesis by (rule nth_foldl_splice)
  qed
qed

text \<open>
  C3, as the code has it. Line 137 renders the true year by \<^verbatim>\<open>"%4d"\<close>: its decimal
  text, right-justified and padded on the left with blanks, not with zeros. The
  rendering takes exactly four characters for a year from -999 to 9999 and more than
  four for a year below -999 or above 9999. One round of the loop of lines 138 and 139,
  at an offset that has four characters of the text after it, removes exactly these
  four and inserts the rendering in their place: the text before the offset stays, the
  rendering follows, and then comes what followed the four characters.
\<close>

theorem splice_year_rendering:
  "format_4d y = replicate (4 - length (str_int y)) CHR '' '' @ str_int y
   \<and> (- 999 \<le> y \<and> y \<le> 9999 \<longrightarrow> length (format_4d y) = 4)
   \<and> (y < - 999 \<or> 9999 < y \<longrightarrow> 4 < length (format_4d y) \<and> format_4d y = str_int y)
   \<and> (site + 4 \<le> length s \<longrightarrow>
        take site (splice_year (format_4d y) s site) = take site s
        \<and> take (length (format_4d y)) (drop site (splice_year (format_4d y) s site))
            = format_4d y
        \<and> drop (site + length (format_4d y)) (splice_year (format_4d y) s site)
            = drop (site + 4) s
        \<and> length (splice_year (format_4d y) s site) + 4 = length s + length (format_4d y))"
proof -
  have pad: "format_4d y = replicate (4 - length (str_int y)) CHR '' '' @ str_int y"
    by (simp add: format_4d_def)
  have four: "length (format_4d y) = 4" if "- 999 \<le> y" and "y \<le> 9999"
    using that str_int_length_le_4 [of y] by (simp add: length_format_4d)
  have long: "4 < length (str_int y)" if "y < - 999 \<or> 9999 < y"
  proof (cases "y < 0")
    case True
    with that have "10 ^ 3 \<le> - y" by simp
    then have "3 < length (str_pos (- y))" by (rule str_pos_length_gt)
    with True show ?thesis by (simp add: str_int_def)
  next
    case False
    with that have "10 ^ 4 \<le> y" by simp
    then have "4 < length (str_pos y)" by (rule str_pos_length_gt)
    with False show ?thesis by (simp add: str_int_def)
  qed
  have more: "4 < length (format_4d y) \<and> format_4d y = str_int y" if "y < - 999 \<or> 9999 < y"
    using long [OF that] by (simp add: format_4d_def)
  have round: "take site (splice_year (format_4d y) s site) = take site s
        \<and> take (length (format_4d y)) (drop site (splice_year (format_4d y) s site))
            = format_4d y
        \<and> drop (site + length (format_4d y)) (splice_year (format_4d y) s site)
            = drop (site + 4) s
        \<and> length (splice_year (format_4d y) s site) + 4 = length s + length (format_4d y)"
    if "site + 4 \<le> length s"
    using that by (simp add: splice_year_def min_def)
  from pad four more round show ?thesis by blast
qed

theorem splice_year_rendering_witness:
  "length (format_4d 33) = 4
   \<and> format_4d 33 = ''  33''
   \<and> splice_year (format_4d 33) ''03/04/1991'' 6 = ''03/04/  33''
   \<and> take 4 (drop 6 (splice_year (format_4d 33) ''03/04/1991'' 6)) = format_4d 33
   \<and> 4 < length (format_4d (- 1000))"
proof -
  note inst = splice_year_rendering [of 33 6 "''03/04/1991''"]
  from inst have "- 999 \<le> (33::int) \<and> (33::int) \<le> 9999 \<longrightarrow> length (format_4d 33) = 4"
    by blast
  then have a: "length (format_4d 33) = 4" by simp
  from inst have "6 + 4 \<le> length ''03/04/1991'' \<longrightarrow>
      take (length (format_4d 33)) (drop 6 (splice_year (format_4d 33) ''03/04/1991'' 6))
          = format_4d 33"
    by blast
  then have "take (length (format_4d 33)) (drop 6 (splice_year (format_4d 33) ''03/04/1991'' 6))
          = format_4d 33"
    by simp
  with a have b: "take 4 (drop 6 (splice_year (format_4d 33) ''03/04/1991'' 6)) = format_4d 33"
    by simp
  have c: "format_4d 33 = ''  33''" by code_simp
  have d: "splice_year (format_4d 33) ''03/04/1991'' 6 = ''03/04/  33''" by code_simp
  from splice_year_rendering [of "- 1000" 0 "[]"]
  have "(- 1000 :: int) < - 999 \<or> 9999 < (- 1000 :: int) \<longrightarrow>
      4 < length (format_4d (- 1000)) \<and> format_4d (- 1000) = str_int (- 1000)"
    by blast
  moreover have "(- 1000 :: int) < - 999" by simp
  ultimately have e: "4 < length (format_4d (- 1000))" by blast
  from a b c d e show ?thesis by blast
qed

text \<open>
  The expressions of lines 137 and 139 on their own: the year 850 comes out with a
  leading blank, where the specification asks for a zero, and the year -1000 takes
  five characters.
\<close>

theorem zero_padded_year_counterexample:
  "format_4d 850 = '' 850'' \<and> format_4d 850 \<noteq> ''0850''
   \<and> splice_year (format_4d 850) ''1992-07-04'' 0 = '' 850-07-04''
   \<and> format_4d (- 1000) = ''-1000''"
  by code_simp

subsection \<open>The converter\<close>

lemma message_badFormat: "message ''badFormat'' = Inr ''Invalid datetime format.''"
  by (simp add: message_def messages_def)

text \<open>
  C5, as the code has it. \<^verbatim>\<open>_from_python\<close> takes the legacy formatter for a year up to
  1900 and \<^verbatim>\<open>value.strftime\<close> for a later one. \<^verbatim>\<open>strftime_before1900\<close> itself, called
  with a year after 1900 and a pattern that passes the check for \<^verbatim>\<open>%s\<close>, returns what
  \<^verbatim>\<open>dt.strftime\<close> returns.
\<close>

theorem legacy_dispatch:
  "(dt_year dt \<le> 1900 \<longrightarrow>
      from_python G P self (VDateTime dt)
        = map_sum id VStr (strftime_before1900 G P dt (format self)))
   \<and> (1900 < dt_year dt \<longrightarrow>
      from_python G P self (VDateTime dt)
        = map_sum id VStr (datetime_strftime P dt (format self)))
   \<and> (1900 < dt_year dt \<and> \<not> illegal_s_search fmt \<longrightarrow>
      strftime_before1900 G P dt fmt = datetime_strftime P dt fmt)"
  by (simp add: from_python_def strftime_before1900_def)

theorem legacy_dispatch_witness:
  "from_python shipped direct_marked date_picker_validator (VDateTime d1900)
     = Inl (NameError ''time'')
   \<and> from_python shipped direct_marked date_picker_validator (VDateTime d1901)
     = Inr (VStr ''direct'')
   \<and> strftime_before1900 shipped direct_marked d1901 ''%m/%d/%Y'' = Inr ''direct''"
proof -
  have y0: "dt_year d1900 \<le> 1900" by (simp add: d1900_def)
  have y1: "1900 < dt_year d1901" by (simp add: d1901_def)
  have ok: "\<not> illegal_s_search ''%m/%d/%Y''" by code_simp
  have f: "format date_picker_validator = ''%m/%d/%Y''"
    by (simp add: date_picker_validator_def)
  have sh: "g_time shipped = None" by (simp add: shipped_def)
  from y0 legacy_dispatch [where dt = d1900 and G = shipped and P = direct_marked
      and self = date_picker_validator]
  have "from_python shipped direct_marked date_picker_validator (VDateTime d1900)
      = map_sum id VStr (strftime_before1900 shipped direct_marked d1900 (format date_picker_validator))"
    by blast
  also have "strftime_before1900 shipped direct_marked d1900 (format date_picker_validator)
      = Inl (NameError ''time'')"
    unfolding f using ok y0 sh by (rule strftime_before1900_unbound)
  finally have a: "from_python shipped direct_marked date_picker_validator (VDateTime d1900)
      = Inl (NameError ''time'')" by simp
  from y1 legacy_dispatch [where dt = d1901 and G = shipped and P = direct_marked
      and self = date_picker_validator]
  have "from_python shipped direct_marked date_picker_validator (VDateTime d1901)
      = map_sum id VStr (datetime_strftime direct_marked d1901 (format date_picker_validator))"
    by blast
  also have "\<dots> = Inr (VStr ''direct'')" by (simp add: direct_marked_def)
  finally have b: "from_python shipped direct_marked date_picker_validator (VDateTime d1901)
      = Inr (VStr ''direct'')" .
  from y1 ok legacy_dispatch [where dt = d1901 and G = shipped and P = direct_marked
      and fmt = "''%m/%d/%Y''"]
  have "strftime_before1900 shipped direct_marked d1901 ''%m/%d/%Y''
      = datetime_strftime direct_marked d1901 ''%m/%d/%Y''"
    by blast
  also have "\<dots> = Inr ''direct''" by (simp add: direct_marked_def)
  finally show ?thesis using a b by blast
qed

text \<open>
  With the pattern \<^verbatim>\<open>%s\<close> and the year 1901 the function raises, where the platform
  prints the seconds since 1970: the check of the pattern comes before the test of the
  year.
\<close>

theorem legacy_returns_platform_counterexample:
  "1900 < dt_year d1901
   \<and> strftime_before1900 shipped py2 d1901 ''%s''
       = Inl (TypeError ''This strftime implementation does not handle %s'')
   \<and> datetime_strftime py2 d1901 ''%s'' = Inr ''-2177452800''"
  by code_simp

text \<open>
  C9. The module as shipped does not return a date or a datetime as it is from
  \<^verbatim>\<open>_to_python\<close>: both are true values, and line 64 raises \<^verbatim>\<open>NameError\<close> for the name
  \<^verbatim>\<open>date\<close>. \<^verbatim>\<open>_from_python\<close> does return a true value that is not a datetime as it is,
  a plain date among them.
\<close>

theorem pass_through:
  "to_python shipped P self (VDateTime dt) = Inl (NameError ''date'')
   \<and> to_python shipped P self (VDate d) = Inl (NameError ''date'')
   \<and> from_python G P self (VDate d) = Inr (VDate d)
   \<and> from_python G P self (VStr (c # cs)) = Inr (VStr (c # cs))"
  by (simp add: to_python_def from_python_def shipped_def)

text \<open>
  With \<^verbatim>\<open>date\<close> bound, \<^verbatim>\<open>_to_python\<close> returns a date or a datetime as it is, and
  \<^verbatim>\<open>_from_python\<close> passes every true value that is not a datetime, in every namespace.
\<close>

lemma date_bound_returns_value:
  "g_date G \<Longrightarrow> is_date_or_datetime v \<Longrightarrow> to_python G P self v = Inr v"
  by (cases v) (simp_all add: to_python_def)

lemma from_python_other_values:
  "truthy v \<Longrightarrow> \<not> is_datetime v \<Longrightarrow> from_python G P self v = Inr v"
  by (cases v) (simp_all add: from_python_def)

text \<open>
  C8. The module as shipped parses nothing: for every text that is not empty,
  \<^verbatim>\<open>_to_python\<close> raises \<^verbatim>\<open>NameError\<close> at line 64 for the name \<^verbatim>\<open>date\<close>, whatever the
  pattern. It fails neither with the message of \<^verbatim>\<open>badFormat\<close> for \<^verbatim>\<open>not-a-date\<close> nor
  returns a datetime for \<^verbatim>\<open>2024/02/29\<close>.
\<close>

theorem to_python_parse:
  "to_python shipped P self (VStr (c # cs)) = Inl (NameError ''date'')
   \<and> to_python shipped P ymd_validator (VStr ''not-a-date'')
       \<noteq> Inl (Invalid ''Invalid datetime format.'' (VStr ''not-a-date''))
   \<and> to_python shipped P ymd_validator (VStr ''2024/02/29'') = Inl (NameError ''date'')"
  by (simp add: to_python_def shipped_def)

text \<open>
  With both names bound: a text that \<^verbatim>\<open>time.strptime\<close> refuses with \<^verbatim>\<open>ValueError\<close> gives
  \<^verbatim>\<open>Invalid\<close> with the message of \<^verbatim>\<open>badFormat\<close>; a parse whose fields the \<^verbatim>\<open>datetime\<close>
  constructor takes gives the datetime of these fields with the validator's
  \<^verbatim>\<open>tzinfo\<close>; a parse with the second 60, which \<^verbatim>\<open>%S\<close> admits, gives the constructor's
  \<^verbatim>\<open>ValueError\<close>, which no handler turns into \<^verbatim>\<open>Invalid\<close>.
\<close>

lemma parse_when_bound:
  assumes "g_date G" and "g_time G = Some T"
  shows "strptime T s (format self) = Inl (ValueError m) \<Longrightarrow>
           to_python G P self (VStr s) = Inl (Invalid ''Invalid datetime format.'' (VStr s))"
    and "strptime T s (format self) = Inr tpl \<Longrightarrow>
         datetime_new (tm_year tpl) (tm_mon tpl) (tm_mday tpl)
           (tm_hour tpl) (tm_min tpl) (tm_sec tpl) (tzinfo self) = Inr d \<Longrightarrow>
           to_python G P self (VStr s) = Inr (VDateTime d)"
    and "strptime T s (format self) = Inr tpl \<Longrightarrow>
         datetime_new (tm_year tpl) (tm_mon tpl) (tm_mday tpl)
           (tm_hour tpl) (tm_min tpl) (tm_sec tpl) (tzinfo self) = Inl e \<Longrightarrow>
           to_python G P self (VStr s) = Inl e"
  using assms by (auto simp: to_python_def parse_value_def message_badFormat)

text \<open>
  C7, as the code has it. \<^verbatim>\<open>_to_python\<close> does not look at \<^verbatim>\<open>not_empty\<close>: its outcome
  is the same whether the validator has it or not, so that it has no error of its own
  for the empty text. \<^verbatim>\<open>_from_python\<close> returns \<^verbatim>\<open>None\<close> for every false value and
  raises nothing.
\<close>

theorem empty_input:
  "to_python G P (self\<lparr>not_empty := b\<rparr>) v = to_python G P self v
   \<and> (\<not> truthy v \<longrightarrow> from_python G P self v = Inr VNone)"
  by (cases v)
    (auto simp: to_python_def parse_value_def from_python_def
       split: option.split sum.split error.split)

theorem empty_input_witness:
  "to_python shipped py2 (date_picker_validator\<lparr>not_empty := False\<rparr>) (VStr [])
     = to_python shipped py2 date_picker_validator (VStr [])
   \<and> from_python shipped py2 date_picker_validator (VStr []) = Inr VNone
   \<and> from_python shipped py2 date_picker_validator (VInt 0) = Inr VNone
   \<and> from_python shipped py2 date_picker_validator VNone = Inr VNone"
  using empty_input [where G = shipped and P = py2 and self = date_picker_validator
      and b = False and v = "VStr []"]
    empty_input [where G = shipped and P = py2 and self = date_picker_validator
      and b = False and v = "VInt 0"]
    empty_input [where G = shipped and P = py2 and self = date_picker_validator
      and b = False and v = VNone]
  by simp

text \<open>
  For the validator of the date picker, which has \<^verbatim>\<open>not_empty\<close>, the empty text does
  not give \<^verbatim>\<open>Invalid\<close> with the message of \<^verbatim>\<open>empty\<close>, and \<^verbatim>\<open>None\<close> is rendered as
  \<^verbatim>\<open>None\<close>, not as the empty text.
\<close>

theorem empty_input_counterexample:
  "not_empty date_picker_validator
   \<and> to_python shipped py2 date_picker_validator (VStr []) = Inl (NameError ''time'')
   \<and> to_python shipped py2 date_picker_validator (VStr [])
       \<noteq> Inl (Invalid ''Please Enter a Date.'' (VStr []))
   \<and> from_python shipped py2 date_picker_validator VNone = Inr VNone
   \<and> from_python shipped py2 date_picker_validator VNone \<noteq> Inr (VStr [])"
  by (simp add: to_python_def parse_value_def from_python_def shipped_def
      date_picker_validator_def)

end
